theory Spec2Isabelle
  imports Main "HOL-Library.AList" "HOL-Library.Code_Target_Nat"
begin

section \<open>A command-line dispatcher: \<open>src/index.ts\<close>\<close>

text \<open>
  The program keeps a table \<open>commands\<close> from command names to handler functions
  (\<open>defineCommand\<close> fills it), parses the argument vector with the runtime's
  \<open>util.parseArgs\<close> (\<open>parseCommand\<close>), and either calls the handler found under a
  name or prints the names of the table (\<open>runCommand\<close>).

  The table is an ordinary JavaScript object created by \<open>{}\<close>. Reading
  \<open>commands[k]\<close> therefore looks at the object's own properties first and then
  follows its prototype chain, and writing \<open>commands[k] = f\<close> is an ordinary property
  assignment. Both are modelled as the language defines them, since the names come
  from the command line and from the callers of \<open>defineCommand\<close>.
\<close>

subsection \<open>Errors, output and completion\<close>

text \<open>
  Two exceptions can leave the program: the \<open>TypeError\<close> of the language (calling a
  value that is not a function, assigning to a read-only property, a throwing
  accessor) and the error \<open>util.parseArgs\<close> throws in strict mode for an option it
  does not know (code \<open>ERR_PARSE_ARGS_UNKNOWN_OPTION\<close>; the specification calls it
  \<open>ArgumentError\<close>). Neither is caught anywhere in the module.
\<close>

datatype error = TypeError | ERR_PARSE_ARGS_UNKNOWN_OPTION

text \<open>
  A run of a piece of code is the list of lines it wrote with \<open>console.log\<close>, and how
  it ended: it returned, it threw, or control entered a built-in function of the
  runtime that the table reached through its prototype chain (\<open>Entered\<close>, with the
  built-in's name). A built-in entered this way is called with \<open>this\<close> undefined
  and the argument array as its only argument; what it does then is the runtime's
  business and is not described here.
\<close>

datatype completion = Returned | Threw error | Entered string

datatype run = Run (printed: "string list") (completion: completion)

subsection \<open>Handlers and the values a lookup yields\<close>

text \<open>
  \<open>type CommandFunction = (args: string[]) => void\<close> (line 3). A handler is a
  function object: its body maps the argument list to a run. Function declarations
  and function expressions own a \<open>prototype\<close> property, arrow functions (such as
  the handler of \<open>hw\<close>, line 21) do not; \<open>is_constructor\<close> records which.
  A handler has the properties every function object has (\<open>length\<close>, \<open>name\<close>,
  and what it inherits from \<open>Function.prototype\<close>) and no others. The dispatcher
  calls at most one handler, as its last step, so what a handler does to the table is
  not observed by the program and is not part of a run.
\<close>

record handler =
  body :: "string list \<Rightarrow> run"
  is_constructor :: bool

text \<open>
  The result of \<open>commands[k]\<close>: \<open>undefined\<close>, a handler, a built-in function of
  the runtime, or some other value that is not callable (an object, a number, a
  string). Built-ins and plain values carry a name that tells where they come from.
\<close>

datatype jsval = Undefined | Handler handler | Builtin string | Plain string

subsection \<open>The table \<open>commands\<close> (line 5)\<close>

text \<open>
  \<open>export const commands: Record<string, CommandFunction> = {}\<close>. The object has
  its own properties, in the order of their creation, and a prototype. The prototype
  of an object created by \<open>{}\<close> is \<open>Object.prototype\<close> (\<open>proto = None\<close>); it
  is a function object \<open>f\<close> (\<open>proto = Some f\<close>) once an assignment to
  \<open>__proto__\<close> has replaced it.
\<close>

record registry =
  own :: "(string \<times> handler) list"
  proto :: "handler option"

definition commands_initial :: registry where
  "commands_initial = \<lparr>own = [], proto = None\<rparr>"

text \<open>
  The function-valued properties of \<open>Object.prototype\<close>. Its one accessor
  property, \<open>__proto__\<close>, is treated in \<open>get\<close> and \<open>defineCommand\<close>.
\<close>

definition object_prototype_functions :: "string list" where
  "object_prototype_functions =
     [''constructor'', ''toString'', ''toLocaleString'', ''valueOf'',
      ''hasOwnProperty'', ''isPrototypeOf'', ''propertyIsEnumerable'',
      ''__defineGetter__'', ''__defineSetter__'',
      ''__lookupGetter__'', ''__lookupSetter__'']"

definition object_prototype_get :: "string \<Rightarrow> jsval" where
  "object_prototype_get k =
     (if k \<in> set object_prototype_functions
      then Builtin (''Object.prototype.'' @ k) else Undefined)"

text \<open>
  Reading property \<open>k\<close> through a function object \<open>f\<close> that has become the
  prototype: \<open>f\<close>'s own \<open>length\<close> and \<open>name\<close> (and \<open>prototype\<close> of a
  constructor), then \<open>Function.prototype\<close> (whose accessors \<open>arguments\<close> and
  \<open>caller\<close> throw), then \<open>Object.prototype\<close>.
\<close>

definition function_prototype_functions :: "string list" where
  "function_prototype_functions =
     [''apply'', ''bind'', ''call'', ''toString'', ''constructor'']"

definition function_get :: "handler \<Rightarrow> string \<Rightarrow> error + jsval" where
  "function_get f k =
     (if k = ''length'' \<or> k = ''name'' then Inr (Plain (''function.'' @ k))
      else if k = ''prototype'' \<and> is_constructor f then Inr (Plain ''function.prototype'')
      else if k \<in> set function_prototype_functions
        then Inr (Builtin (''Function.prototype.'' @ k))
      else if k = ''arguments'' \<or> k = ''caller'' then Inl TypeError
      else Inr (object_prototype_get k))"

text \<open>
  \<open>commands[k]\<close>, the registry's \<open>lookup\<close>: an own property wins; otherwise the
  prototype chain answers. The getter of \<open>__proto__\<close> returns the prototype itself.
\<close>

definition get :: "registry \<Rightarrow> string \<Rightarrow> error + jsval" where
  "get reg k =
     (case map_of (own reg) k of
        Some h \<Rightarrow> Inr (Handler h)
      | None \<Rightarrow>
          (case proto reg of
             None \<Rightarrow>
               if k = ''__proto__'' then Inr (Plain ''Object.prototype'')
               else Inr (object_prototype_get k)
           | Some f \<Rightarrow>
               if k = ''__proto__'' then Inr (Handler f) else function_get f k))"

text \<open>
  \<open>defineCommand\<close> (lines 16 to 19): \<open>commands[commandName] = commandFunction\<close>.
  An existing own property is overwritten in place. Otherwise the assignment asks the
  prototype chain: the setter of \<open>__proto__\<close> replaces the prototype and creates no
  property; a read-only inherited property (\<open>length\<close> and \<open>name\<close> of a function)
  or a throwing setter (\<open>arguments\<close>, \<open>caller\<close>) makes the assignment throw, the
  module being strict code; in every other case a new own property is appended
  (\<open>AList.update\<close> replaces the value of the first entry with the key, or appends
  the pair at the end).
\<close>

definition defineCommand :: "string \<Rightarrow> handler \<Rightarrow> registry \<Rightarrow> error + registry" where
  "defineCommand commandName commandFunction reg =
     (if map_of (own reg) commandName \<noteq> None
        then Inr (reg\<lparr>own := AList.update commandName commandFunction (own reg)\<rparr>)
      else if commandName = ''__proto__''
        then Inr (reg\<lparr>proto := Some commandFunction\<rparr>)
      else if proto reg \<noteq> None \<and>
              commandName \<in> set [''length'', ''name'', ''arguments'', ''caller'']
        then Inl TypeError
      else Inr (reg\<lparr>own := AList.update commandName commandFunction (own reg)\<rparr>))"

text \<open>
  \<open>Object.keys(commands)\<close>, the registry's \<open>listNames\<close>: the own property names,
  those that are array indices (canonical decimal numerals below \<open>2^32 - 1\<close>) first
  in ascending numeric order, then the others in the order of their creation.
\<close>

definition is_digit :: "char \<Rightarrow> bool" where
  "is_digit c = (c \<in> set ''0123456789'')"

definition digit_of :: "char \<Rightarrow> nat" where
  "digit_of c = of_char c - 48"

definition index_of :: "string \<Rightarrow> nat" where
  "index_of s = foldl (\<lambda>n c. 10 * n + digit_of c) 0 s"

definition is_array_index :: "string \<Rightarrow> bool" where
  "is_array_index s =
     (s \<noteq> [] \<and> list_all is_digit s \<and> (length s = 1 \<or> hd s \<noteq> CHR ''0'')
      \<and> index_of s < 2 ^ 32 - 1)"

definition Object_keys :: "registry \<Rightarrow> string list" where
  "Object_keys reg =
     (let ks = map fst (own reg)
      in sort_key index_of (filter is_array_index ks)
         @ filter (\<lambda>k. \<not> is_array_index k) ks)"

text \<open>The built-in command (lines 21 to 23), an arrow function.\<close>

definition hw :: handler where
  "hw = \<lparr>body = (\<lambda>args. Run [''Hello world''] Returned), is_constructor = False\<rparr>"

text \<open>The table when the dispatch of line 96 starts: only \<open>hw\<close> has been defined.\<close>

definition commands_at_dispatch :: registry where
  "commands_at_dispatch = \<lparr>own = [(''hw'', hw)], proto = None\<rparr>"

subsection \<open>\<open>util.parseArgs\<close> as \<open>parseCommand\<close> configures it\<close>

text \<open>
  \<open>parseArgs\<close> is a library function of the runtime, not code of this repository.
  It is described here for the one configuration line 46 uses: \<open>options: {}\<close>,
  \<open>strict: true\<close>, \<open>allowPositionals: true\<close>. The library splits the arguments
  into tokens from left to right: a bare \<open>--\<close> ends the options, and every argument
  after it is a positional; \<open>-f\<close> is a short option, \<open>-fXz\<close> a group of short
  options, \<open>--foo\<close> a long option, \<open>--foo=bar\<close> a long option with its value;
  anything else, a lone \<open>-\<close> included, is a positional. With no option declared,
  strict mode throws at the first option token.
\<close>

definition isLoneShortOption :: "string \<Rightarrow> bool" where
  "isLoneShortOption arg =
     (length arg = 2 \<and> arg ! 0 = CHR ''-'' \<and> arg ! 1 \<noteq> CHR ''-'')"

definition isShortOptionGroup :: "string \<Rightarrow> bool" where
  "isShortOptionGroup arg =
     (length arg > 2 \<and> arg ! 0 = CHR ''-'' \<and> arg ! 1 \<noteq> CHR ''-'')"

definition isLoneLongOption :: "string \<Rightarrow> bool" where
  "isLoneLongOption arg =
     (length arg > 2 \<and> take 2 arg = ''--'' \<and> CHR ''='' \<notin> set (drop 3 arg))"

definition isLongOptionAndValue :: "string \<Rightarrow> bool" where
  "isLongOptionAndValue arg =
     (length arg > 2 \<and> take 2 arg = ''--'' \<and> CHR ''='' \<in> set (drop 3 arg))"

definition isOption :: "string \<Rightarrow> bool" where
  "isOption arg =
     (isLoneShortOption arg \<or> isShortOptionGroup arg \<or>
      isLoneLongOption arg \<or> isLongOptionAndValue arg)"

fun parseArgs :: "string list \<Rightarrow> error + string list" where
  "parseArgs [] = Inr []"
| "parseArgs (arg # remainingArgs) =
     (if arg = ''--'' then Inr remainingArgs
      else if isOption arg then Inl ERR_PARSE_ARGS_UNKNOWN_OPTION
      else (case parseArgs remainingArgs of
              Inl e \<Rightarrow> Inl e
            | Inr positionals \<Rightarrow> Inr (arg # positionals)))"

subsection \<open>\<open>parseCommand\<close> (lines 44 to 61)\<close>

text \<open>
  \<open>const [command, ...argsWithoutCommand] = positionals\<close>: the first positional, or
  \<open>undefined\<close> when there is none, and the rest.
\<close>

record Command =
  command :: "string option"
  args :: "string list"

definition parseCommand :: "string list \<Rightarrow> error + Command" where
  "parseCommand argv =
     (case parseArgs argv of
        Inl e \<Rightarrow> Inl e
      | Inr positionals \<Rightarrow>
          Inr \<lparr>command = (case positionals of [] \<Rightarrow> None | c # _ \<Rightarrow> Some c),
               args = (case positionals of [] \<Rightarrow> [] | _ # argsWithoutCommand \<Rightarrow> argsWithoutCommand)\<rparr>)"

subsection \<open>\<open>runCommand\<close> (lines 78 to 93)\<close>

text \<open>
  Reading an array beyond its end yields \<open>undefined\<close>, and a property key that is
  \<open>undefined\<close> is converted to the string \<open>undefined\<close>.
\<close>

definition at_index :: "'a list \<Rightarrow> nat \<Rightarrow> 'a option" where
  "at_index xs i = (if i < length xs then Some (xs ! i) else None)"

definition ToPropertyKey :: "string option \<Rightarrow> string" where
  "ToPropertyKey v = (case v of None \<Rightarrow> ''undefined'' | Some s \<Rightarrow> s)"

text \<open>
  The call \<open>commandFunction(args)\<close>: a handler runs its body; a built-in is
  entered; calling anything else throws a \<open>TypeError\<close>.
\<close>

fun call :: "jsval \<Rightarrow> string list \<Rightarrow> run" where
  "call (Handler h) as = body h as"
| "call (Builtin b) as = Run [] (Entered b)"
| "call (Plain p) as = Run [] (Threw TypeError)"
| "call Undefined as = Run [] (Threw TypeError)"

definition listing :: "registry \<Rightarrow> string list" where
  "listing reg = ''Available commands:'' # map (\<lambda>c. ''- '' @ c) (Object_keys reg)"

definition runCommand :: "registry \<Rightarrow> string option \<Rightarrow> string list \<Rightarrow> run" where
  "runCommand reg cmd as =
     (case get reg (ToPropertyKey cmd) of
        Inl e \<Rightarrow> Run [] (Threw e)
      | Inr commandFunction \<Rightarrow>
          (case commandFunction of
             Undefined \<Rightarrow> Run (listing reg) Returned
           | _ \<Rightarrow> call commandFunction as))"

subsection \<open>The top level (lines 96 to 101)\<close>

text \<open>
  \<open>dispatch\<close> is the conditional of lines 97 to 101 on a parsed command, \<open>main\<close>
  parses first, and \<open>program\<close> is the whole module: it defines \<open>hw\<close> in the empty
  table and then dispatches on \<open>Bun.argv\<close>.
\<close>

definition dispatch :: "registry \<Rightarrow> Command \<Rightarrow> run" where
  "dispatch reg c =
     (if length (args c) = 0
      then (case get reg ''help'' of
              Inl e \<Rightarrow> Run [] (Threw e)
            | Inr f \<Rightarrow> call f [])
      else runCommand reg (at_index (args c) 1) (args c))"

definition main :: "registry \<Rightarrow> string list \<Rightarrow> run" where
  "main reg argv =
     (case parseCommand argv of
        Inl e \<Rightarrow> Run [] (Threw e)
      | Inr c \<Rightarrow> dispatch reg c)"

definition program :: "string list \<Rightarrow> run" where
  "program argv =
     (case defineCommand ''hw'' hw commands_initial of
        Inl e \<Rightarrow> Run [] (Threw e)
      | Inr reg \<Rightarrow> main reg argv)"

section \<open>Properties\<close>

subsection \<open>The argument parser\<close>

text \<open>
  The four option shapes of the library together are: at least two characters, the
  first a dash, and not the bare terminator.
\<close>

lemma isOption_iff: "isOption t = (2 \<le> length t \<and> hd t = CHR ''-'' \<and> t \<noteq> ''--'')"
proof (cases t)
  case Nil
  then show ?thesis
    by (simp add: isOption_def isLoneShortOption_def isShortOptionGroup_def
        isLoneLongOption_def isLongOptionAndValue_def)
next
  case (Cons a u)
  note t = this
  show ?thesis
  proof (cases u)
    case Nil
    with t show ?thesis
      by (simp add: isOption_def isLoneShortOption_def isShortOptionGroup_def
          isLoneLongOption_def isLongOptionAndValue_def)
  next
    case (Cons b v)
    with t show ?thesis
      by (cases v)
        (auto simp add: isOption_def isLoneShortOption_def isShortOptionGroup_def
          isLoneLongOption_def isLongOptionAndValue_def)
  qed
qed

lemma parseArgs_fails_iff:
  "(parseArgs argv = Inl ERR_PARSE_ARGS_UNKNOWN_OPTION) =
   (\<exists>t \<in> set (takeWhile (\<lambda>a. a \<noteq> ''--'') argv). isOption t)"
  by (induction argv) (auto split: sum.splits)

lemma parseArgs_never_TypeError: "parseArgs argv \<noteq> Inl TypeError"
  by (induction argv) (auto split: sum.splits)

lemma parseArgs_positionals:
  "parseArgs argv = Inr ps \<Longrightarrow>
   ps = takeWhile (\<lambda>a. a \<noteq> ''--'') argv @ drop 1 (dropWhile (\<lambda>a. a \<noteq> ''--'') argv)"
  by (induction argv arbitrary: ps) (auto split: sum.splits if_splits)

subsection \<open>Reading and writing the table\<close>

lemma get_update_same:
  "get (reg\<lparr>own := AList.update n h (own reg)\<rparr>) n = Inr (Handler h)"
  by (simp add: get_def update_conv')

lemma get_update_other:
  "m \<noteq> n \<Longrightarrow> get (reg\<lparr>own := AList.update n h (own reg)\<rparr>) m = get reg m"
  by (simp add: get_def update_conv' split: option.splits)

lemma get_proto_replaced:
  "map_of (own reg) ''__proto__'' = None \<Longrightarrow>
   get (reg\<lparr>proto := Some h\<rparr>) ''__proto__'' = Inr (Handler h)"
  by (simp add: get_def)

lemma get_undefined_key:
  "map_of (own reg) ''undefined'' = None \<Longrightarrow> get reg ''undefined'' = Inr Undefined"
  by (simp add: get_def function_get_def object_prototype_get_def
      object_prototype_functions_def function_prototype_functions_def split: option.splits)

text \<open>
  With the prototype it was created with, the table answers \<open>undefined\<close> exactly for
  the names that are neither its own nor those of \<open>Object.prototype\<close>.
\<close>

lemma get_misses_iff:
  "(get \<lparr>own = ps, proto = None\<rparr> k = Inr Undefined) =
   (map_of ps k = None \<and> k \<noteq> ''__proto__'' \<and> k \<notin> set object_prototype_functions)"
  by (simp add: get_def object_prototype_get_def split: option.splits)

lemma defineCommand_own:
  "map_of (own reg) n = Some h0 \<Longrightarrow>
   defineCommand n h reg = Inr (reg\<lparr>own := AList.update n h (own reg)\<rparr>)"
  by (simp add: defineCommand_def)

lemma defineCommand_proto:
  "map_of (own reg) ''__proto__'' = None \<Longrightarrow>
   defineCommand ''__proto__'' h reg = Inr (reg\<lparr>proto := Some h\<rparr>)"
  by (simp add: defineCommand_def)

lemma defineCommand_new:
  "map_of (own reg) n = None \<Longrightarrow> n \<noteq> ''__proto__'' \<Longrightarrow> proto reg = None \<Longrightarrow>
   defineCommand n h reg = Inr (reg\<lparr>own := AList.update n h (own reg)\<rparr>)"
  by (simp add: defineCommand_def)

text \<open>
  Once a function object is the prototype, the names it makes read-only cannot be
  defined any more.
\<close>

lemma defineCommand_read_only:
  "map_of (own reg) n = None \<Longrightarrow> proto reg = Some f \<Longrightarrow>
   n \<in> set [''length'', ''name'', ''arguments'', ''caller''] \<Longrightarrow>
   defineCommand n h reg = Inl TypeError"
  by (auto simp add: defineCommand_def)

text \<open>
  The frame of a definition under any name but \<open>__proto__\<close>, in every state of the
  table: the other names read as before.
\<close>

lemma defineCommand_frame:
  "n \<noteq> ''__proto__'' \<Longrightarrow> m \<noteq> n \<Longrightarrow> defineCommand n h reg = Inr reg' \<Longrightarrow>
   get reg' m = get reg m"
  by (auto simp add: defineCommand_def get_update_other split: if_splits)

lemma Object_keys_overwrite:
  assumes "map_of ps n = Some h0"
  shows "Object_keys (reg\<lparr>own := AList.update n h ps\<rparr>) = Object_keys (reg\<lparr>own := ps\<rparr>)"
proof -
  from assms have "n \<in> set (map fst ps)"
    by (metis map_of_eq_None_iff option.distinct(1) set_map)
  then show ?thesis
    by (simp add: Object_keys_def update_keys)
qed

text \<open>
  In a table that still has the prototype it was created with, whatever its own
  properties \<open>ps\<close>, a definition does not throw and the lookup of the name yields
  the handler. The name \<open>__proto__\<close> is included: the assignment installs the
  handler as the prototype, and the getter of \<open>__proto__\<close> returns it.
\<close>

lemma defineCommand_then_get:
  "\<exists>reg'. defineCommand n h \<lparr>own = ps, proto = None\<rparr> = Inr reg' \<and>
          get reg' n = Inr (Handler h)"
proof (cases "map_of ps n")
  case (Some h0)
  then show ?thesis
    using defineCommand_own [where reg = "\<lparr>own = ps, proto = None\<rparr>" and n = n and ?h0.0 = h0 and h = h]
      get_update_same [where reg = "\<lparr>own = ps, proto = None\<rparr>" and n = n and h = h]
    by simp
next
  case None
  show ?thesis
  proof (cases "n = ''__proto__''")
    case True
    with None show ?thesis
      using defineCommand_proto [where reg = "\<lparr>own = ps, proto = None\<rparr>" and h = h]
        get_proto_replaced [where reg = "\<lparr>own = ps, proto = None\<rparr>" and h = h]
      by simp
  next
    case False
    with None show ?thesis
      using defineCommand_new [where reg = "\<lparr>own = ps, proto = None\<rparr>" and n = n and h = h]
        get_update_same [where reg = "\<lparr>own = ps, proto = None\<rparr>" and n = n and h = h]
      by simp
  qed
qed

text \<open>
  In such a table a second definition under the same name does not throw either, the
  lookup yields the second handler, and the list of names is as the first definition
  made it.
\<close>

lemma defineCommand_twice:
  "\<exists>r1 r2. defineCommand n h1 \<lparr>own = ps, proto = None\<rparr> = Inr r1 \<and>
           defineCommand n h2 r1 = Inr r2 \<and>
           get r2 n = Inr (Handler h2) \<and>
           Object_keys r2 = Object_keys r1"
proof (cases "map_of ps n")
  case (Some h0)
  let ?r1 = "\<lparr>own = AList.update n h1 ps, proto = None\<rparr>"
  let ?r2 = "\<lparr>own = AList.update n h2 (AList.update n h1 ps), proto = None\<rparr>"
  have 1: "defineCommand n h1 \<lparr>own = ps, proto = None\<rparr> = Inr ?r1"
    using Some defineCommand_own [where reg = "\<lparr>own = ps, proto = None\<rparr>" and n = n and ?h0.0 = h0 and h = h1]
    by simp
  have m: "map_of (AList.update n h1 ps) n = Some h1"
    by (simp add: update_conv')
  have 2: "defineCommand n h2 ?r1 = Inr ?r2"
    using m defineCommand_own [where reg = ?r1 and n = n and ?h0.0 = h1 and h = h2] by simp
  have 3: "get ?r2 n = Inr (Handler h2)"
    using get_update_same [where reg = ?r1 and n = n and h = h2] by simp
  have 4: "Object_keys ?r2 = Object_keys ?r1"
    using m Object_keys_overwrite [where ps = "AList.update n h1 ps" and n = n and ?h0.0 = h1 and reg = ?r1 and h = h2]
    by simp
  from 1 2 3 4 show ?thesis by blast
next
  case None
  show ?thesis
  proof (cases "n = ''__proto__''")
    case True
    let ?r1 = "\<lparr>own = ps, proto = Some h1\<rparr>"
    let ?r2 = "\<lparr>own = ps, proto = Some h2\<rparr>"
    have 1: "defineCommand n h1 \<lparr>own = ps, proto = None\<rparr> = Inr ?r1"
      using None True defineCommand_proto [where reg = "\<lparr>own = ps, proto = None\<rparr>" and h = h1]
      by simp
    have 2: "defineCommand n h2 ?r1 = Inr ?r2"
      using None True defineCommand_proto [where reg = ?r1 and h = h2] by simp
    have 3: "get ?r2 n = Inr (Handler h2)"
      using None True get_proto_replaced [where reg = ?r1 and h = h2] by simp
    have 4: "Object_keys ?r2 = Object_keys ?r1"
      by (simp add: Object_keys_def)
    from 1 2 3 4 show ?thesis by blast
  next
    case False
    let ?r1 = "\<lparr>own = AList.update n h1 ps, proto = None\<rparr>"
    let ?r2 = "\<lparr>own = AList.update n h2 (AList.update n h1 ps), proto = None\<rparr>"
    have 1: "defineCommand n h1 \<lparr>own = ps, proto = None\<rparr> = Inr ?r1"
      using None False defineCommand_new [where reg = "\<lparr>own = ps, proto = None\<rparr>" and n = n and h = h1]
      by simp
    have m: "map_of (AList.update n h1 ps) n = Some h1"
      by (simp add: update_conv')
    have 2: "defineCommand n h2 ?r1 = Inr ?r2"
      using m defineCommand_own [where reg = ?r1 and n = n and ?h0.0 = h1 and h = h2] by simp
    have 3: "get ?r2 n = Inr (Handler h2)"
      using get_update_same [where reg = ?r1 and n = n and h = h2] by simp
    have 4: "Object_keys ?r2 = Object_keys ?r1"
      using m Object_keys_overwrite [where ps = "AList.update n h1 ps" and n = n and ?h0.0 = h1 and reg = ?r1 and h = h2]
      by simp
    from 1 2 3 4 show ?thesis by blast
  qed
qed

subsection \<open>The two branches of \<open>runCommand\<close> and the no-argument branch\<close>

lemma runCommand_unknown:
  "get reg (ToPropertyKey c) = Inr Undefined \<Longrightarrow>
   runCommand reg c as = Run (listing reg) Returned"
  by (simp add: runCommand_def)

lemma runCommand_handler:
  "get reg (ToPropertyKey c) = Inr (Handler h) \<Longrightarrow> runCommand reg c as = body h as"
  by (simp add: runCommand_def)

lemma dispatch_no_arguments:
  "args c = [] \<Longrightarrow> get reg ''help'' = Inr (Handler h) \<Longrightarrow> dispatch reg c = body h []"
  by (simp add: dispatch_def)

text \<open>
  With exactly one positional the element at index 1 is absent, and in a table with no
  command of the name \<open>undefined\<close> the names are listed.
\<close>

lemma dispatch_one_positional:
  "map_of (own reg) ''undefined'' = None \<Longrightarrow>
   at_index [a] 1 = None \<and>
   get reg (ToPropertyKey (at_index [a] 1)) = Inr Undefined \<and>
   dispatch reg \<lparr>command = c, args = [a]\<rparr> = Run (listing reg) Returned"
  by (simp add: dispatch_def at_index_def ToPropertyKey_def get_undefined_key runCommand_unknown)

section \<open>The claims\<close>

subsection \<open>The registry\<close>

text \<open>
  Claim C6: for all names \<open>n\<close> and handlers \<open>h\<close>, \<open>register(n, h)\<close> followed by
  \<open>lookup(n)\<close> returns \<open>h\<close>. Here \<open>register\<close> is \<open>defineCommand\<close> and
  \<open>lookup\<close> is the read \<open>commands[n]\<close>. The code keeps this while the table has
  the prototype it was created with (\<open>defineCommand_then_get\<close>), but not for all
  names in every table the exported \<open>defineCommand\<close> can produce: after
  \<open>defineCommand("__proto__", f)\<close> the prototype of the table is the function
  \<open>f\<close>, whose \<open>name\<close> is read-only, so \<open>defineCommand("name", h)\<close> throws a
  \<open>TypeError\<close> and defines nothing, and \<open>commands["name"]\<close> is the name of
  \<open>f\<close>, not \<open>h\<close>.
\<close>

theorem defineCommand_name_throws_after_proto:
  "defineCommand ''__proto__'' hw commands_at_dispatch
     = Inr \<lparr>own = [(''hw'', hw)], proto = Some hw\<rparr> \<and>
   defineCommand ''name'' h \<lparr>own = [(''hw'', hw)], proto = Some hw\<rparr> = Inl TypeError \<and>
   get \<lparr>own = [(''hw'', hw)], proto = Some hw\<rparr> ''name'' = Inr (Plain ''function.name'')"
  by (simp add: commands_at_dispatch_def defineCommand_def get_def function_get_def)

text \<open>
  Claim C7: registering a name twice overwrites silently, with no error: after
  \<open>register(n, h1); register(n, h2)\<close>, \<open>lookup(n)\<close> returns \<open>h2\<close>. The code
  keeps this while the table has the prototype it was created with
  (\<open>defineCommand_twice\<close>), but not for all names in every table the exported
  \<open>defineCommand\<close> can produce: after \<open>defineCommand("__proto__", f)\<close> each of
  the two definitions of \<open>length\<close> throws a \<open>TypeError\<close>, the table is left as it
  was, and \<open>commands["length"]\<close> is the length of \<open>f\<close>, not \<open>h2\<close>.
\<close>

theorem defineCommand_twice_throws_after_proto:
  "defineCommand ''__proto__'' hw commands_at_dispatch
     = Inr \<lparr>own = [(''hw'', hw)], proto = Some hw\<rparr> \<and>
   defineCommand ''length'' h1 \<lparr>own = [(''hw'', hw)], proto = Some hw\<rparr> = Inl TypeError \<and>
   defineCommand ''length'' h2 \<lparr>own = [(''hw'', hw)], proto = Some hw\<rparr> = Inl TypeError \<and>
   get \<lparr>own = [(''hw'', hw)], proto = Some hw\<rparr> ''length'' = Inr (Plain ''function.length'')"
  by (simp add: commands_at_dispatch_def defineCommand_def get_def function_get_def)

text \<open>
  Claim C10: \<open>register(n, h)\<close> changes only the mapping for \<open>n\<close>: for every name
  \<open>m\<close> distinct from \<open>n\<close>, \<open>lookup(m)\<close> returns the same result before and
  after. The code does not keep this for \<open>n = __proto__\<close> (for every other name it
  does, see \<open>defineCommand_frame\<close>): in the table the program ships,
  \<open>commands["call"]\<close> is \<open>undefined\<close>; after
  \<open>defineCommand("__proto__", f)\<close> no property has been added, the prototype of
  the table is \<open>f\<close>, and \<open>commands["call"]\<close> is \<open>Function.prototype.call\<close>.
\<close>

theorem defineCommand_proto_changes_other_names:
  "get commands_at_dispatch ''call'' = Inr Undefined \<and>
   defineCommand ''__proto__'' hw commands_at_dispatch
     = Inr \<lparr>own = [(''hw'', hw)], proto = Some hw\<rparr> \<and>
   Object_keys \<lparr>own = [(''hw'', hw)], proto = Some hw\<rparr> = [''hw''] \<and>
   get \<lparr>own = [(''hw'', hw)], proto = Some hw\<rparr> ''call''
     = Inr (Builtin ''Function.prototype.call'')"
  by (simp add: commands_at_dispatch_def defineCommand_def get_def function_get_def
      object_prototype_get_def object_prototype_functions_def
      function_prototype_functions_def Object_keys_def is_array_index_def is_digit_def)

subsection \<open>The parser\<close>

text \<open>
  Claim C8: parsing the one-element vector \<open>["hw"]\<close> yields a command whose command
  token is \<open>hw\<close> and whose argument list is empty; in general \<open>parseCommand\<close>
  splits the positionals into the first element, the command, and the remainder, the
  arguments (with no positional at all the command is \<open>undefined\<close>).
\<close>

theorem parseCommand_splits_positionals:
  "parseCommand [''hw''] = Inr \<lparr>command = Some ''hw'', args = []\<rparr> \<and>
   (\<forall>c rest. parseArgs argv = Inr (c # rest) \<longrightarrow>
      parseCommand argv = Inr \<lparr>command = Some c, args = rest\<rparr>) \<and>
   (parseArgs argv = Inr [] \<longrightarrow> parseCommand argv = Inr \<lparr>command = None, args = []\<rparr>)"
  by (simp add: parseCommand_def isOption_iff)

theorem parseCommand_splits_positionals_witness:
  "parseArgs [''bun'', ''index.ts'', ''hw''] = Inr [''bun'', ''index.ts'', ''hw''] \<and>
   parseCommand [''bun'', ''index.ts'', ''hw'']
     = Inr \<lparr>command = Some ''bun'', args = [''index.ts'', ''hw'']\<rparr>"
  using parseCommand_splits_positionals [of "[''bun'', ''index.ts'', ''hw'']"]
  by (simp add: isOption_iff)

text \<open>
  Claim C4, as stated: for every argument vector containing a token that begins with
  an option marker (\<open>-\<close> or \<open>--\<close>), parsing fails with the argument error. It
  fails for \<open>["--bogus"]\<close>, but not for every such vector: a bare \<open>--\<close> ends
  the options, so \<open>["--", "--bogus"]\<close> parses, with \<open>--bogus\<close> as a
  positional; and a lone \<open>-\<close> is a positional.
\<close>

theorem parseCommand_dash_counterexample:
  "parseCommand [''--'', ''--bogus''] = Inr \<lparr>command = Some ''--bogus'', args = []\<rparr> \<and>
   parseCommand [''-''] = Inr \<lparr>command = Some ''-'', args = []\<rparr>"
  by (simp add: parseCommand_def isOption_iff)

text \<open>
  Claim C4, amended: parsing fails, with the argument error, exactly when some token
  before the first bare \<open>--\<close> has at least two characters and begins with \<open>-\<close>.
  In every other case it succeeds, and the positionals are the tokens before the
  first bare \<open>--\<close> followed by all the tokens after it (so a lone \<open>-\<close> and every
  token after a bare \<open>--\<close> are positionals); the command is the first of them and
  the arguments are the rest. \<open>parseCommand\<close> is a function of the argument vector
  alone, it has no effect besides its result.
\<close>

theorem parseCommand_result:
  "(parseCommand argv = Inl ERR_PARSE_ARGS_UNKNOWN_OPTION) =
     (\<exists>t \<in> set (takeWhile (\<lambda>a. a \<noteq> ''--'') argv). 2 \<le> length t \<and> hd t = CHR ''-'') \<and>
   (parseCommand argv \<noteq> Inl ERR_PARSE_ARGS_UNKNOWN_OPTION \<longrightarrow>
      parseCommand argv =
        Inr \<lparr>command =
               (case takeWhile (\<lambda>a. a \<noteq> ''--'') argv @ drop 1 (dropWhile (\<lambda>a. a \<noteq> ''--'') argv)
                of [] \<Rightarrow> None | c # _ \<Rightarrow> Some c),
             args =
               tl (takeWhile (\<lambda>a. a \<noteq> ''--'') argv @ drop 1 (dropWhile (\<lambda>a. a \<noteq> ''--'') argv))\<rparr>)"
proof -
  let ?ps = "takeWhile (\<lambda>a. a \<noteq> ''--'') argv @ drop 1 (dropWhile (\<lambda>a. a \<noteq> ''--'') argv)"
  have fails: "(parseCommand argv = Inl ERR_PARSE_ARGS_UNKNOWN_OPTION) =
        (parseArgs argv = Inl ERR_PARSE_ARGS_UNKNOWN_OPTION)"
    by (simp add: parseCommand_def split: sum.splits)
  also have "\<dots> = (\<exists>t \<in> set (takeWhile (\<lambda>a. a \<noteq> ''--'') argv). isOption t)"
    by (rule parseArgs_fails_iff)
  also have "\<dots> = (\<exists>t \<in> set (takeWhile (\<lambda>a. a \<noteq> ''--'') argv).
                      2 \<le> length t \<and> hd t = CHR ''-'')"
    by (auto simp add: isOption_iff dest: set_takeWhileD)
  finally have 1: "(parseCommand argv = Inl ERR_PARSE_ARGS_UNKNOWN_OPTION) =
     (\<exists>t \<in> set (takeWhile (\<lambda>a. a \<noteq> ''--'') argv). 2 \<le> length t \<and> hd t = CHR ''-'')" .
  have 2: "parseCommand argv =
      Inr \<lparr>command = (case ?ps of [] \<Rightarrow> None | c # _ \<Rightarrow> Some c), args = tl ?ps\<rparr>"
    if ok: "parseCommand argv \<noteq> Inl ERR_PARSE_ARGS_UNKNOWN_OPTION"
  proof (cases "parseArgs argv")
    case (Inl e)
    with ok fails parseArgs_never_TypeError [of argv] show ?thesis
      by (cases e) simp_all
  next
    case (Inr ps)
    then have eq: "ps = ?ps"
      by (rule parseArgs_positionals)
    from Inr have "parseCommand argv =
        Inr \<lparr>command = (case ps of [] \<Rightarrow> None | c # _ \<Rightarrow> Some c), args = tl ps\<rparr>"
      by (cases ps) (simp_all add: parseCommand_def)
    then show ?thesis
      by (simp only: eq)
  qed
  from 1 2 show ?thesis by blast
qed

text \<open>
  Instances: an option after the script token fails; a lone \<open>-\<close> and the tokens
  after a bare \<open>--\<close>, options by their looks, are arguments.
\<close>

theorem parseCommand_result_witness:
  "parseCommand [''bun'', ''index.ts'', ''--bogus''] = Inl ERR_PARSE_ARGS_UNKNOWN_OPTION \<and>
   parseCommand [''bun'', ''index.ts'', ''-'', ''--'', ''--bogus'', ''-x'', ''--'']
     = Inr \<lparr>command = Some ''bun'', args = [''index.ts'', ''-'', ''--bogus'', ''-x'', ''--'']\<rparr>"
  using parseCommand_result [of "[''bun'', ''index.ts'', ''--bogus'']"]
    parseCommand_result [of "[''bun'', ''index.ts'', ''-'', ''--'', ''--bogus'', ''-x'', ''--'']"]
  by simp

subsection \<open>The dispatcher\<close>

text \<open>
  Claim C2: for every parsed command that carries positional arguments, the
  dispatcher takes the element at index 1 of that sequence as the name of the command
  to execute, and passes the entire sequence (the command token included) as the
  argument list to the handler it looks up. So the dispatch is \<open>runCommand\<close> on the
  element at index 1 and the whole sequence, and when the lookup of that name yields
  a handler \<open>h\<close>, the run is that of \<open>h\<close> on the whole sequence.
\<close>

theorem dispatch_index_one:
  "args c \<noteq> [] \<Longrightarrow>
   dispatch reg c = runCommand reg (at_index (args c) 1) (args c) \<and>
   (\<forall>h. get reg (ToPropertyKey (at_index (args c) 1)) = Inr (Handler h) \<longrightarrow>
        dispatch reg c = body h (args c))"
  by (simp add: dispatch_def runCommand_handler)

text \<open>
  An instance, with a handler that prints the arguments it receives: it is found
  under the element at index 1 and is given the script token and its own name.
\<close>

theorem dispatch_index_one_witness:
  "args \<lparr>command = Some ''bun'', args = [''index.ts'', ''echo'']\<rparr> \<noteq> [] \<and>
   at_index [''index.ts'', ''echo''] 1 = Some ''echo'' \<and>
   dispatch \<lparr>own = [(''echo'', \<lparr>body = (\<lambda>as. Run as Returned), is_constructor = False\<rparr>)],
             proto = None\<rparr>
            \<lparr>command = Some ''bun'', args = [''index.ts'', ''echo'']\<rparr>
     = Run [''index.ts'', ''echo''] Returned"
  using dispatch_index_one
    [of "\<lparr>command = Some ''bun'', args = [''index.ts'', ''echo'']\<rparr>"
        "\<lparr>own = [(''echo'', \<lparr>body = (\<lambda>as. Run as Returned), is_constructor = False\<rparr>)],
          proto = None\<rparr>"]
  by (simp add: at_index_def ToPropertyKey_def get_def runCommand_def)

text \<open>
  Claim C5: invoking the program with an argument vector \<open>[runtime, script, "hw"]\<close>
  prints exactly the line \<open>Hello world\<close> and exits successfully, through the single
  built-in command \<open>hw\<close>. The runtime and script tokens are any two tokens the
  parser takes as positionals. The table at the time of the dispatch is the empty one
  with \<open>hw\<close> defined in it, and \<open>hw\<close> is its only name.
\<close>

theorem program_hw:
  "a \<noteq> ''--'' \<Longrightarrow> \<not> isOption a \<Longrightarrow> b \<noteq> ''--'' \<Longrightarrow> \<not> isOption b \<Longrightarrow>
   program [a, b, ''hw''] = Run [''Hello world''] Returned \<and>
   defineCommand ''hw'' hw commands_initial = Inr commands_at_dispatch \<and>
   Object_keys commands_at_dispatch = [''hw'']"
  by (simp add: program_def defineCommand_def commands_initial_def commands_at_dispatch_def
      main_def parseCommand_def isOption_iff dispatch_def runCommand_def at_index_def
      ToPropertyKey_def get_def hw_def Object_keys_def is_array_index_def is_digit_def)

theorem program_hw_witness:
  "''bun'' \<noteq> ''--'' \<and> \<not> isOption ''bun'' \<and> ''index.ts'' \<noteq> ''--'' \<and> \<not> isOption ''index.ts'' \<and>
   program [''bun'', ''index.ts'', ''hw''] = Run [''Hello world''] Returned"
  using program_hw [of "''bun''" "''index.ts''"]
  by (simp add: isOption_iff)

text \<open>
  Claim C1: when the program is invoked with no positional arguments beyond the
  runtime and script tokens, the dispatcher invokes the \<open>help\<close> handler with an
  empty argument list. The code does not do so. \<open>parseCommand\<close> receives the whole
  of \<open>Bun.argv\<close>, so the runtime token becomes the command and the script token the
  one argument; the test \<open>command.args.length === 0\<close> fails, and \<open>runCommand\<close> is
  called on the absent element at index 1, which is no name of the table: the names
  are listed. This holds for the program as shipped, and also when a \<open>help\<close>
  handler \<open>h\<close> is registered; \<open>h\<close> does not run. (The branch itself does what
  the claim says when it is reached, see \<open>dispatch_no_arguments\<close>; it is reached
  only with at most one token in the argument vector.)
\<close>

theorem no_user_arguments_lists_the_names:
  "program [''bun'', ''index.ts''] = Run [''Available commands:'', ''- hw''] Returned \<and>
   main \<lparr>own = [(''hw'', hw), (''help'', h)], proto = None\<rparr> [''bun'', ''index.ts'']
     = Run [''Available commands:'', ''- hw'', ''- help''] Returned"
  by (simp add: program_def defineCommand_def commands_initial_def
      main_def parseCommand_def isOption_iff dispatch_def runCommand_def at_index_def
      ToPropertyKey_def get_def object_prototype_get_def object_prototype_functions_def
      listing_def Object_keys_def is_array_index_def is_digit_def)

text \<open>
  Claim C3: for every command name not present in the registry, dispatching it
  invokes no handler and is not an error: the header and the names are printed, and
  the invocation completes successfully. The code does not do so for the names the
  table inherits from \<open>Object.prototype\<close> (for all other unregistered names it
  does, see \<open>get_misses_iff\<close> and \<open>runCommand_unknown\<close>). In the program as shipped,
  the name \<open>__proto__\<close> reads as the prototype object, which is not \<open>undefined\<close>
  and not callable: the call throws a \<open>TypeError\<close>. The name \<open>toString\<close> reads
  as the built-in \<open>Object.prototype.toString\<close>, which is called in place of a
  handler. Neither prints the list.
\<close>

theorem inherited_names_are_dispatched:
  "program [''bun'', ''index.ts'', ''__proto__''] = Run [] (Threw TypeError) \<and>
   program [''bun'', ''index.ts'', ''toString'']
     = Run [] (Entered ''Object.prototype.toString'')"
  by (simp add: program_def defineCommand_def commands_initial_def
      main_def parseCommand_def isOption_iff dispatch_def runCommand_def at_index_def
      ToPropertyKey_def get_def object_prototype_get_def object_prototype_functions_def)


end
